theory Spec2Isabelle
  imports Complex_Main
begin

section \<open>Data model of \<^verbatim>\<open>backend/main.py\<close>\<close>

text \<open>
  The module keeps two globals, \<^verbatim>\<open>model_config\<close> (a dict loaded from
  \<^verbatim>\<open>config.json\<close>) and \<^verbatim>\<open>pipe\<close> (the lazily built pipeline). Every
  function is embedded as a function on an explicit state that holds both globals
  together with the part of the outside world the functions touch: the configuration
  file, the paths that exist, the images written, and what was printed.

  The values of the configuration dict are JSON scalars. Nested documents and
  floating-point numbers do not occur in any value the module writes, and are left out.
\<close>

datatype jvalue = JNull | JBool bool | JInt int | JStr string

type_synonym config = "string \<rightharpoonup> jvalue"

text \<open>Python truthiness of a scalar, as used by \<^verbatim>\<open>if model_config['cache_dir']:\<close>.\<close>

fun truthy :: "jvalue \<Rightarrow> bool" where
  "truthy JNull = False"
| "truthy (JBool b) = b"
| "truthy (JInt n) = (n \<noteq> 0)"
| "truthy (JStr s) = (s \<noteq> [])"

text \<open>
  The integer a scalar compares as: \<^verbatim>\<open>bool\<close> is a subclass of \<^verbatim>\<open>int\<close>;
  comparing \<^verbatim>\<open>None\<close> or a string with an integer raises \<^verbatim>\<open>TypeError\<close>.
\<close>

fun as_int :: "jvalue \<Rightarrow> int option" where
  "as_int (JInt n) = Some n"
| "as_int (JBool b) = Some (if b then 1 else 0)"
| "as_int JNull = None"
| "as_int (JStr s) = None"

datatype error =
    HTTPException int string
  | ValueError string
  | KeyError string
  | TypeError string
  | RuntimeError string
  | OSError string

text \<open>Decimal rendering of a status code, for \<^verbatim>\<open>str(e)\<close> of an \<^verbatim>\<open>HTTPException\<close>.\<close>

definition digit :: "nat \<Rightarrow> char" where
  "digit d = ''0123456789'' ! d"

fun decimal :: "nat \<Rightarrow> string" where
  "decimal n = (if n < 10 then [digit n] else decimal (n div 10) @ [digit (n mod 10)])"

declare decimal.simps [simp del]

definition str_int :: "int \<Rightarrow> string" where
  "str_int i = (if i < 0 then ''-'' @ decimal (nat (- i)) else decimal (nat i))"

text \<open>
  \<^verbatim>\<open>str(e)\<close>: the message of the exception; a \<^verbatim>\<open>KeyError\<close> shows the repr of
  its key, an \<^verbatim>\<open>HTTPException\<close> shows \<^verbatim>\<open>"{status_code}: {detail}"\<close>.
\<close>

fun str_error :: "error \<Rightarrow> string" where
  "str_error (HTTPException c d) = str_int c @ '': '' @ d"
| "str_error (ValueError m) = m"
| "str_error (KeyError k) = [CHR 0x27] @ k @ [CHR 0x27]"
| "str_error (TypeError m) = m"
| "str_error (RuntimeError m) = m"
| "str_error (OSError m) = m"

datatype dtype = BFloat16 | Float32

datatype device = CPU | CUDA jvalue

text \<open>\<^verbatim>\<open>"cuda" in device\<close> on the device string.\<close>

fun is_cuda :: "device \<Rightarrow> bool" where
  "is_cuda CPU = False"
| "is_cuda (CUDA g) = True"

datatype submodule = Transformer | TextEncoder | Vae

datatype placement = OnDevice device | Offloaded jvalue

text \<open>
  The pipeline object. \<^verbatim>\<open>quantize\<close>, \<^verbatim>\<open>freeze\<close>, \<^verbatim>\<open>to\<close> and
  \<^verbatim>\<open>enable_model_cpu_offload\<close> mutate it in place; the record keeps what has been
  done to it so far.
\<close>

record pipeline =
  p_model_id :: jvalue
  p_dtype :: dtype
  p_cache_dir :: jvalue
  p_has_text_encoder :: bool
  p_has_vae :: bool
  p_quantized :: "submodule list"
  p_frozen :: "submodule list"
  p_placement :: "placement option"

datatype generator = Generator device int

datatype image = Image "nat list"

text \<open>The keyword arguments of one call of the pipeline (lines 237-244).\<close>

record engine_call =
  c_prompt :: "string option"
  c_height :: int
  c_width :: int
  c_num_inference_steps :: int
  c_guidance_scale :: real
  c_generator :: "generator option"

text \<open>What the module prints, one constructor per \<^verbatim>\<open>print\<close> statement.\<close>

datatype event =
    ErrorLoadingConfig
  | ErrorSavingConfig error
  | LoadingModel jvalue
  | UsingCacheDirectory jvalue
  | WarningGpuNotAvailable jvalue
  | AvailableGpus "string list"
  | FallingBackToGpu0
  | NoCudaFallingBackToCpu
  | QuantizationEnabled
  | QuantizingToFp8
  | EnablingCpuOffload
  | ModelLoadedOn device
  | ErrorLoadingModel error
  | GeneratingWithPrompt "string option"
  | ImageSavedTo string
  | ErrorGeneratingImage error

text \<open>
  The file \<^verbatim>\<open>config.json\<close>: absent, present but not readable as JSON (an empty or
  truncated text included), or holding a JSON object.
\<close>

datatype file_state = Missing | Unparsable | Document config

record state =
  model_config :: config
  pipe :: "pipeline option"
  config_file :: file_state
  existing_paths :: "string set"
  saved_images :: "(string \<times> image) list"
  printed :: "event list"
  acquire_calls :: nat
  construct_calls :: nat
  engine_calls :: "engine_call list"

text \<open>
  \<open>acquire_calls\<close>, \<open>construct_calls\<close> and \<open>engine_calls\<close> are counters the
  source does not have: they record each call of \<^verbatim>\<open>get_pipeline\<close>, of
  \<^verbatim>\<open>ZImagePipeline.from_pretrained\<close> and of the pipeline itself.

  The libraries the module calls (torch, diffusers, optimum-quanto, the file system, the
  clock) are parameters: which optional imports succeeded, what CUDA reports, and which
  library call raises what.
\<close>

record env =
  ZImagePipeline_available :: bool
  quantize_available :: bool
  cuda_is_available :: bool
  cuda_device_count :: nat
  cuda_get_device_name :: "nat \<Rightarrow> string"
  model_has_text_encoder :: bool
  model_has_vae :: bool
  from_pretrained_raises :: "jvalue \<Rightarrow> dtype \<Rightarrow> jvalue \<Rightarrow> error option"
  quantize_raises :: "submodule \<Rightarrow> error option"
  freeze_raises :: "submodule \<Rightarrow> error option"
  enable_model_cpu_offload_raises :: "jvalue \<Rightarrow> error option"
  to_raises :: "device \<Rightarrow> error option"
  manual_seed_raises :: "device \<Rightarrow> int \<Rightarrow> error option"
  run_pipeline :: "pipeline \<Rightarrow> engine_call \<Rightarrow> nat \<Rightarrow> error + image"
  makedirs_raises :: "string \<Rightarrow> error option"
  image_save_raises :: "string \<Rightarrow> error option"
  open_w_raises :: "error option"
  json_dump_raises :: "error option"
  png_base64 :: "image \<Rightarrow> string"

text \<open>What differs from one request to the next: the clock, the UUID, the engine's own randomness.\<close>

record nondet =
  now_strftime :: string
  uuid4_str :: string
  noise :: nat

definition print :: "event \<Rightarrow> state \<Rightarrow> state" where
  "print ev s = s\<lparr>printed := printed s @ [ev]\<rparr>"

section \<open>Configuration file (lines 58-90)\<close>

definition default_config :: config where
  "default_config =
     [''cache_dir'' \<mapsto> JStr '''',
      ''model_id'' \<mapsto> JStr ''Tongyi-MAI/Z-Image-Turbo'',
      ''gpu_device'' \<mapsto> JInt 1,
      ''cpu_offload'' \<mapsto> JBool True,
      ''fp8_quantization'' \<mapsto> JBool True]"


text \<open>Lines 86-90: the module-level fill of the two later fields.\<close>

definition fill_missing :: "config \<Rightarrow> config" where
  "fill_missing c0 =
     (let c1 = (if c0 ''cpu_offload'' = None then c0(''cpu_offload'' \<mapsto> JBool False) else c0);
          c2 = (if c1 ''fp8_quantization'' = None then c1(''fp8_quantization'' \<mapsto> JBool True) else c1)
      in c2)"

text \<open>
  \<^verbatim>\<open>save_config\<close> (lines 75-80). \<^verbatim>\<open>open(CONFIG_FILE, "w")\<close> truncates the
  file before anything is written; \<^verbatim>\<open>json.dump\<close> then writes the document into it.
  Either may raise; the handler prints the error and returns.
\<close>

definition open_w :: "env \<Rightarrow> state \<Rightarrow> (error + unit) \<times> state" where
  "open_w env s =
     (case open_w_raises env of
        Some e \<Rightarrow> (Inl e, s)
      | None \<Rightarrow> (Inr (), s\<lparr>config_file := Unparsable\<rparr>))"

definition json_dump :: "env \<Rightarrow> config \<Rightarrow> state \<Rightarrow> (error + unit) \<times> state" where
  "json_dump env c s =
     (case json_dump_raises env of
        Some e \<Rightarrow> (Inl e, s)
      | None \<Rightarrow> (Inr (), s\<lparr>config_file := Document c\<rparr>))"

definition save_config_body :: "env \<Rightarrow> config \<Rightarrow> state \<Rightarrow> (error + unit) \<times> state" where
  "save_config_body env c s =
     (case open_w env s of
        (Inl e, s1) \<Rightarrow> (Inl e, s1)
      | (Inr u, s1) \<Rightarrow> json_dump env c s1)"

definition save_config :: "env \<Rightarrow> config \<Rightarrow> state \<Rightarrow> (error + unit) \<times> state" where
  "save_config env c s =
     (case save_config_body env c s of
        (Inl e, s1) \<Rightarrow> (Inr (), print (ErrorSavingConfig e) s1)
      | (Inr u, s1) \<Rightarrow> (Inr (), s1))"

text \<open>
  The successive contents of \<^verbatim>\<open>config.json\<close> during one call of
  \<^verbatim>\<open>save_config\<close>: before the call, after \<^verbatim>\<open>open\<close>, after \<^verbatim>\<open>json.dump\<close>.
  A reader running beside the call can find the file in any of them.
\<close>

definition save_config_file_trace :: "env \<Rightarrow> config \<Rightarrow> state \<Rightarrow> file_state list" where
  "save_config_file_trace env c s =
     (case open_w env s of
        (Inl e, s1) \<Rightarrow> [config_file s, config_file s1]
      | (Inr u, s1) \<Rightarrow> [config_file s, config_file s1, config_file (snd (json_dump env c s1))])"


section \<open>Pipeline construction (lines 95-166)\<close>

text \<open>Lines 108-123: the device, with the fallback to GPU 0.\<close>

definition resolve_device :: "env \<Rightarrow> state \<Rightarrow> (error + jvalue \<times> device) \<times> state" where
  "resolve_device env s =
     (let gpu_id = (case model_config s ''gpu_device'' of None \<Rightarrow> JInt 0 | Some v \<Rightarrow> v) in
      if cuda_is_available env then
        (let device_count = cuda_device_count env;
             available_gpus = map (cuda_get_device_name env) [0..<device_count] in
         case as_int gpu_id of
           None \<Rightarrow> (Inl (TypeError ''unsupported operand types for <''), s)
         | Some g \<Rightarrow>
             if g < 0 \<or> g \<ge> int device_count then
               (let s1 = print (WarningGpuNotAvailable gpu_id) s;
                    s2 = print (AvailableGpus available_gpus) s1;
                    s3 = print FallingBackToGpu0 s2;
                    s4 = s3\<lparr>model_config := (model_config s3)(''gpu_device'' \<mapsto> JInt 0)\<rparr>
                in (Inr (JInt 0, CUDA (JInt 0)), s4))
             else (Inr (gpu_id, CUDA gpu_id), s))
      else (Inr (gpu_id, CPU), print NoCudaFallingBackToCpu s))"

text \<open>
  \<^verbatim>\<open>pipe = ZImagePipeline.from_pretrained(...)\<close>: on success the global is assigned
  at once.
\<close>

definition from_pretrained :: "env \<Rightarrow> jvalue \<Rightarrow> dtype \<Rightarrow> jvalue \<Rightarrow> state \<Rightarrow> (error + unit) \<times> state" where
  "from_pretrained env mid dt cd s =
     (let s1 = s\<lparr>construct_calls := Suc (construct_calls s)\<rparr> in
      case from_pretrained_raises env mid dt cd of
        Some e \<Rightarrow> (Inl e, s1)
      | None \<Rightarrow>
          (Inr (), s1\<lparr>pipe := Some \<lparr>p_model_id = mid, p_dtype = dt, p_cache_dir = cd,
                                    p_has_text_encoder = model_has_text_encoder env,
                                    p_has_vae = model_has_vae env,
                                    p_quantized = [], p_frozen = [], p_placement = None\<rparr>\<rparr>))"

text \<open>\<^verbatim>\<open>quantize(pipe.m, weights=qfloat8); freeze(pipe.m)\<close> on the global's submodule.\<close>

definition quantize_freeze :: "env \<Rightarrow> submodule \<Rightarrow> state \<Rightarrow> (error + unit) \<times> state" where
  "quantize_freeze env m s =
     (case quantize_raises env m of
        Some e \<Rightarrow> (Inl e, s)
      | None \<Rightarrow>
          (let s1 = s\<lparr>pipe := map_option (\<lambda>p. p\<lparr>p_quantized := p_quantized p @ [m]\<rparr>) (pipe s)\<rparr> in
           case freeze_raises env m of
             Some e \<Rightarrow> (Inl e, s1)
           | None \<Rightarrow>
               (Inr (), s1\<lparr>pipe := map_option (\<lambda>p. p\<lparr>p_frozen := p_frozen p @ [m]\<rparr>) (pipe s1)\<rparr>)))"

definition present :: "submodule \<Rightarrow> state \<Rightarrow> bool" where
  "present m s =
     (case pipe s of
        None \<Rightarrow> False
      | Some p \<Rightarrow> (case m of Transformer \<Rightarrow> True | TextEncoder \<Rightarrow> p_has_text_encoder p | Vae \<Rightarrow> p_has_vae p))"

text \<open>Lines 127-154.\<close>

definition load_model :: "env \<Rightarrow> jvalue \<Rightarrow> dtype \<Rightarrow> jvalue \<Rightarrow> state \<Rightarrow> (error + unit) \<times> state" where
  "load_model env mid dt cd s =
     (let should_quantize = (case model_config s ''fp8_quantization'' of None \<Rightarrow> False | Some v \<Rightarrow> truthy v) in
      if should_quantize \<and> quantize_available env then
        (case from_pretrained env mid dt cd (print QuantizationEnabled s) of
           (Inl e, s1) \<Rightarrow> (Inl e, s1)
         | (Inr u, s1) \<Rightarrow>
             (case quantize_freeze env Transformer (print QuantizingToFp8 s1) of
                (Inl e, s2) \<Rightarrow> (Inl e, s2)
              | (Inr u, s2) \<Rightarrow>
                  (case (if present TextEncoder s2 then quantize_freeze env TextEncoder s2 else (Inr (), s2)) of
                     (Inl e, s3) \<Rightarrow> (Inl e, s3)
                   | (Inr u, s3) \<Rightarrow>
                       (if present Vae s3 then quantize_freeze env Vae s3 else (Inr (), s3)))))
      else from_pretrained env mid dt cd s)"

text \<open>Lines 156-160.\<close>

definition place_pipeline :: "env \<Rightarrow> jvalue \<Rightarrow> device \<Rightarrow> state \<Rightarrow> (error + unit) \<times> state" where
  "place_pipeline env gpu_id dev s =
     (if (case model_config s ''cpu_offload'' of None \<Rightarrow> False | Some v \<Rightarrow> truthy v) \<and> is_cuda dev then
        (let s1 = print EnablingCpuOffload s in
         case enable_model_cpu_offload_raises env gpu_id of
           Some e \<Rightarrow> (Inl e, s1)
         | None \<Rightarrow> (Inr (), s1\<lparr>pipe := map_option (\<lambda>p. p\<lparr>p_placement := Some (Offloaded gpu_id)\<rparr>) (pipe s1)\<rparr>))
      else
        (case to_raises env dev of
           Some e \<Rightarrow> (Inl e, s)
         | None \<Rightarrow> (Inr (), s\<lparr>pipe := map_option (\<lambda>p. p\<lparr>p_placement := Some (OnDevice dev)\<rparr>) (pipe s)\<rparr>)))"

text \<open>The body of the \<^verbatim>\<open>try\<close> block, lines 107-162.\<close>

definition construct :: "env \<Rightarrow> jvalue \<Rightarrow> jvalue \<Rightarrow> state \<Rightarrow> (error + unit) \<times> state" where
  "construct env mid cd s =
     (case resolve_device env s of
        (Inl e, s1) \<Rightarrow> (Inl e, s1)
      | (Inr (gpu_id, dev), s1) \<Rightarrow>
          (let dt = (if is_cuda dev then BFloat16 else Float32) in
           case load_model env mid dt cd s1 of
             (Inl e, s2) \<Rightarrow> (Inl e, s2)
           | (Inr u, s2) \<Rightarrow>
               (case place_pipeline env gpu_id dev s2 of
                  (Inl e, s3) \<Rightarrow> (Inl e, s3)
                | (Inr u, s3) \<Rightarrow> (Inr (), print (ModelLoadedOn dev) s3))))"

text \<open>
  \<^verbatim>\<open>get_pipeline\<close>. It returns the global \<^verbatim>\<open>pipe\<close>, which may be \<^verbatim>\<open>None\<close>
  only if construction has not assigned it.
\<close>

definition get_pipeline :: "env \<Rightarrow> state \<Rightarrow> (error + pipeline option) \<times> state" where
  "get_pipeline env s0 =
     (let s = s0\<lparr>acquire_calls := Suc (acquire_calls s0)\<rparr> in
      case pipe s of
        Some p \<Rightarrow> (Inr (Some p), s)
      | None \<Rightarrow>
          if \<not> ZImagePipeline_available env then
            (Inl (HTTPException 500 ''ZImagePipeline class not available. Install diffusers from source.''), s)
          else
            (case model_config s ''model_id'' of
               None \<Rightarrow> (Inl (KeyError ''model_id''), s)
             | Some mid \<Rightarrow>
                 (let s1 = print (LoadingModel mid) s in
                  case model_config s1 ''cache_dir'' of
                    None \<Rightarrow> (Inl (KeyError ''cache_dir''), s1)
                  | Some cd \<Rightarrow>
                      (let s2 = (if truthy cd then print (UsingCacheDirectory cd) s1 else s1) in
                       case construct env mid cd s2 of
                         (Inl e, s3) \<Rightarrow> (Inl e, print (ErrorLoadingModel e) s3)
                       | (Inr u, s3) \<Rightarrow> (Inr (pipe s3), s3)))))"

section \<open>Settings (lines 168-205)\<close>

text \<open>
  The JSON body of a settings update: \<^verbatim>\<open>cache_dir\<close> is required, the other three
  fields may be left out. \<^verbatim>\<open>SettingsRequest\<close> is the validated model, with the
  defaults of the class filled in.
\<close>

record settings_payload =
  body_cache_dir :: string
  body_cpu_offload :: "bool option"
  body_gpu_device :: "int option"
  body_fp8_quantization :: "bool option"

record SettingsRequest =
  req_cache_dir :: string
  req_cpu_offload :: bool
  req_gpu_device :: int
  req_fp8_quantization :: bool

definition parse_SettingsRequest :: "settings_payload \<Rightarrow> SettingsRequest" where
  "parse_SettingsRequest b =
     \<lparr>req_cache_dir = body_cache_dir b,
      req_cpu_offload = (case body_cpu_offload b of None \<Rightarrow> False | Some v \<Rightarrow> v),
      req_gpu_device = (case body_gpu_device b of None \<Rightarrow> 0 | Some v \<Rightarrow> v),
      req_fp8_quantization = (case body_fp8_quantization b of None \<Rightarrow> False | Some v \<Rightarrow> v)\<rparr>"

text \<open>\<^verbatim>\<open>os.makedirs(path, exist_ok=True)\<close>.\<close>

definition makedirs :: "env \<Rightarrow> string \<Rightarrow> state \<Rightarrow> (error + unit) \<times> state" where
  "makedirs env path s =
     (case makedirs_raises env path of
        Some e \<Rightarrow> (Inl e, s)
      | None \<Rightarrow> (Inr (), s\<lparr>existing_paths := insert path (existing_paths s)\<rparr>))"

definition set_model_path :: "env \<Rightarrow> SettingsRequest \<Rightarrow> state \<Rightarrow> (error + string \<times> string) \<times> state" where
  "set_model_path env req s =
     (case (if req_cache_dir req \<noteq> [] \<and> req_cache_dir req \<notin> existing_paths s
            then makedirs env (req_cache_dir req) s else (Inr (), s)) of
        (Inl e, s1) \<Rightarrow> (Inl (HTTPException 500 (str_error e)), s1)
      | (Inr u, s1) \<Rightarrow>
          (let c1 = (model_config s1)(''cache_dir'' \<mapsto> JStr (req_cache_dir req));
               c2 = c1(''cpu_offload'' \<mapsto> JBool (req_cpu_offload req));
               c3 = c2(''gpu_device'' \<mapsto> JInt (req_gpu_device req));
               c4 = c3(''fp8_quantization'' \<mapsto> JBool (req_fp8_quantization req));
               s2 = s1\<lparr>model_config := c4\<rparr>
           in case save_config env (model_config s2) s2 of
                (Inl e, s3) \<Rightarrow> (Inl (HTTPException 500 (str_error e)), s3)
              | (Inr u, s3) \<Rightarrow>
                  (Inr (''success'', ''Settings saved. Model will reload on next generation.''),
                   s3\<lparr>pipe := None\<rparr>)))"

definition get_settings :: "state \<Rightarrow> config" where
  "get_settings s = model_config s"

section \<open>Generation (lines 207-272)\<close>

record GenerateRequest =
  prompt :: "string option"
  height :: int
  width :: int
  steps :: int
  guidance_scale :: real
  seed :: int

text \<open>
  \<^verbatim>\<open>prompt\<close> is \<^verbatim>\<open>None\<close> when the tool front-end is called without one
  (\<^verbatim>\<open>arguments.get("prompt")\<close>); the HTTP model always carries a string.
\<close>

text \<open>Lines 222-228: the device for the generator.\<close>

definition generator_device :: "env \<Rightarrow> state \<Rightarrow> error + device" where
  "generator_device env s =
     (let gpu_id = (case model_config s ''gpu_device'' of None \<Rightarrow> JInt 0 | Some v \<Rightarrow> v) in
      if cuda_is_available env then
        (case as_int gpu_id of
           None \<Rightarrow> Inl (TypeError ''unsupported operand types for <'')
         | Some g \<Rightarrow>
             if g < 0 \<or> g \<ge> int (cuda_device_count env) then Inr (CUDA (JInt 0))
             else Inr (CUDA gpu_id))
      else Inr CPU)"

text \<open>Lines 230-232.\<close>

definition make_generator :: "env \<Rightarrow> device \<Rightarrow> int \<Rightarrow> error + generator option" where
  "make_generator env dev sd =
     (if sd \<noteq> - 1 then
        (case manual_seed_raises env dev sd of
           Some e \<Rightarrow> Inl e
         | None \<Rightarrow> Inr (Some (Generator dev sd)))
      else Inr None)"

text \<open>\<^verbatim>\<open>pipeline(...)\<close>: calling \<^verbatim>\<open>None\<close> raises \<^verbatim>\<open>TypeError\<close>.\<close>

definition call_pipeline :: "env \<Rightarrow> nondet \<Rightarrow> pipeline option \<Rightarrow> engine_call \<Rightarrow> state \<Rightarrow> (error + image) \<times> state" where
  "call_pipeline env nd po c s =
     (case po of
        None \<Rightarrow> (Inl (TypeError ''NoneType object is not callable''), s)
      | Some p \<Rightarrow>
          (run_pipeline env p c (noise nd), s\<lparr>engine_calls := engine_calls s @ [c]\<rparr>))"

text \<open>Lines 246-254.\<close>

definition save_output :: "env \<Rightarrow> nondet \<Rightarrow> image \<Rightarrow> state \<Rightarrow> (error + unit) \<times> state" where
  "save_output env nd img s =
     (case makedirs env ''output'' s of
        (Inl e, s1) \<Rightarrow> (Inl e, s1)
      | (Inr u, s1) \<Rightarrow>
          (let filename = now_strftime nd @ ''_'' @ take 8 (uuid4_str nd) @ ''.png'';
               filepath = ''output/'' @ filename
           in case image_save_raises env filepath of
                Some e \<Rightarrow> (Inl e, s1)
              | None \<Rightarrow>
                  (Inr (), print (ImageSavedTo filepath)
                             (s1\<lparr>saved_images := saved_images s1 @ [(filepath, img)]\<rparr>))))"

definition generate_image_core :: "env \<Rightarrow> nondet \<Rightarrow> GenerateRequest \<Rightarrow> state \<Rightarrow> (error + string) \<times> state" where
  "generate_image_core env nd r s =
     (if height r mod 16 \<noteq> 0 \<or> width r mod 16 \<noteq> 0 then
        (Inl (ValueError ''Height and Width must be divisible by 16.''), s)
      else
        (case get_pipeline env s of
           (Inl e, s1) \<Rightarrow> (Inl e, s1)
         | (Inr pipeline, s1) \<Rightarrow>
             (case generator_device env s1 of
                Inl e \<Rightarrow> (Inl e, s1)
              | Inr dev \<Rightarrow>
                  (case make_generator env dev (seed r) of
                     Inl e \<Rightarrow> (Inl e, s1)
                   | Inr gen \<Rightarrow>
                       (let s2 = print (GeneratingWithPrompt (prompt r)) s1;
                            c = \<lparr>c_prompt = prompt r, c_height = height r, c_width = width r,
                                 c_num_inference_steps = steps r,
                                 c_guidance_scale = guidance_scale r, c_generator = gen\<rparr>
                        in case call_pipeline env nd pipeline c s2 of
                             (Inl e, s3) \<Rightarrow> (Inl e, s3)
                           | (Inr img, s3) \<Rightarrow>
                               (case save_output env nd img s3 of
                                  (Inl e, s4) \<Rightarrow> (Inl e, s4)
                                | (Inr u, s4) \<Rightarrow> (Inr (png_base64 env img), s4)))))))"

text \<open>
  The HTTP handler, lines 263-272. A \<^verbatim>\<open>ValueError\<close> becomes status 400, any other
  exception is printed and becomes status 500.
\<close>

definition generate_image :: "env \<Rightarrow> nondet \<Rightarrow> GenerateRequest \<Rightarrow> state \<Rightarrow> (error + string) \<times> state" where
  "generate_image env nd r s =
     (case generate_image_core env nd r s of
        (Inr img_str, s1) \<Rightarrow> (Inr (''data:image/png;base64,'' @ img_str), s1)
      | (Inl (ValueError m), s1) \<Rightarrow> (Inl (HTTPException 400 m), s1)
      | (Inl e, s1) \<Rightarrow> (Inl (HTTPException 500 (str_error e)), print (ErrorGeneratingImage e) s1))"

section \<open>Tool front-end (lines 295-321)\<close>

text \<open>
  The arguments of a tool call, typed as the input schema of \<^verbatim>\<open>list_tools\<close>
  declares them; a key that is absent is \<open>None\<close>.
\<close>

record arguments =
  arg_prompt :: "string option"
  arg_height :: "int option"
  arg_width :: "int option"
  arg_steps :: "int option"
  arg_guidance_scale :: "real option"
  arg_seed :: "int option"

datatype content =
    ImageContent string string "string list" real
  | TextContent string

text \<open>Lines 298-303: the request read from the arguments, with the defaults of \<^verbatim>\<open>.get\<close>.\<close>

definition tool_request :: "arguments \<Rightarrow> GenerateRequest" where
  "tool_request args =
     \<lparr>prompt = arg_prompt args,
      height = (case arg_height args of None \<Rightarrow> 1024 | Some v \<Rightarrow> v),
      width = (case arg_width args of None \<Rightarrow> 1024 | Some v \<Rightarrow> v),
      steps = (case arg_steps args of None \<Rightarrow> 8 | Some v \<Rightarrow> v),
      guidance_scale = (case arg_guidance_scale args of None \<Rightarrow> 0 | Some v \<Rightarrow> v),
      seed = (case arg_seed args of None \<Rightarrow> - 1 | Some v \<Rightarrow> v)\<rparr>"

definition call_tool :: "env \<Rightarrow> nondet \<Rightarrow> string \<Rightarrow> arguments \<Rightarrow> state \<Rightarrow> (error + content list) \<times> state" where
  "call_tool env nd name args s =
     (if name = ''generate-image'' then
        (case generate_image_core env nd (tool_request args) s of
           (Inr img_base64, s1) \<Rightarrow> (Inr [ImageContent img_base64 ''image/png'' [''user''] 1], s1)
         | (Inl e, s1) \<Rightarrow> (Inr [TextContent (''Error generating image: '' @ str_error e)], s1))
      else (Inl (ValueError (''Unknown tool: '' @ name)), s))"

section \<open>Concrete environments and inputs\<close>

text \<open>
  A machine without CUDA on which every library call succeeds. Its engine draws the
  image from the seed when a generator is passed and from its own randomness otherwise.
\<close>

definition cpu_env :: env where
  "cpu_env =
     \<lparr>ZImagePipeline_available = True, quantize_available = True,
      cuda_is_available = False, cuda_device_count = 0, cuda_get_device_name = (\<lambda>i. []),
      model_has_text_encoder = True, model_has_vae = True,
      from_pretrained_raises = (\<lambda>m d c. None),
      quantize_raises = (\<lambda>m. None), freeze_raises = (\<lambda>m. None),
      enable_model_cpu_offload_raises = (\<lambda>g. None), to_raises = (\<lambda>d. None),
      manual_seed_raises = (\<lambda>d n. None),
      run_pipeline = (\<lambda>p c n. Inr (Image (case c_generator c of
                                               None \<Rightarrow> [n]
                                             | Some (Generator d sd) \<Rightarrow> [nat \<bar>sd\<bar>, nat (c_height c), nat (c_width c)]))),
      makedirs_raises = (\<lambda>p. None), image_save_raises = (\<lambda>p. None),
      open_w_raises = None, json_dump_raises = None,
      png_base64 = (\<lambda>im. case im of Image px \<Rightarrow> map (\<lambda>n. if even n then CHR ''A'' else CHR ''B'') px)\<rparr>"

text \<open>The same machine with two CUDA devices.\<close>

definition gpu_env :: env where
  "gpu_env = cpu_env\<lparr>cuda_is_available := True, cuda_device_count := 2,
                      cuda_get_device_name := (\<lambda>i. if i = 0 then ''GPU A'' else ''GPU B'')\<rparr>"

text \<open>The CPU machine on which \<^verbatim>\<open>quantize\<close> raises.\<close>

definition quantize_fails_env :: env where
  "quantize_fails_env = cpu_env\<lparr>quantize_raises := (\<lambda>m. Some (RuntimeError ''quantize failed''))\<rparr>"

text \<open>The CPU machine on which the configuration file opens but the write fails.\<close>

definition disk_full_env :: env where
  "disk_full_env = cpu_env\<lparr>json_dump_raises := Some (OSError ''No space left on device'')\<rparr>"

text \<open>The state after a start with no configuration file.\<close>

definition fresh_state :: state where
  "fresh_state =
     \<lparr>model_config = fill_missing default_config, pipe = None, config_file = Missing,
      existing_paths = {}, saved_images = [], printed = [], acquire_calls = 0,
      construct_calls = 0, engine_calls = []\<rparr>"

text \<open>A configuration written before the two later fields existed.\<close>

definition legacy_config :: config where
  "legacy_config =
     [''cache_dir'' \<mapsto> JStr [], ''model_id'' \<mapsto> JStr ''Tongyi-MAI/Z-Image-Turbo'',
      ''gpu_device'' \<mapsto> JInt 0]"

text \<open>A configuration that names GPU 5, in memory and on disk.\<close>

definition gpu5_config :: config where
  "gpu5_config = default_config(''gpu_device'' \<mapsto> JInt 5)"

definition gpu5_state :: state where
  "gpu5_state = fresh_state\<lparr>model_config := gpu5_config, config_file := Document gpu5_config\<rparr>"

definition clock1 :: nondet where
  "clock1 = \<lparr>now_strftime = ''20260101_120000'', uuid4_str = ''0f8fad5b-d9cb-469f-a165-70867728950e'', noise = 3\<rparr>"

definition clock2 :: nondet where
  "clock2 = \<lparr>now_strftime = ''20260101_120107'', uuid4_str = ''7c9e6679-7425-40de-944b-e07fc1f90ae7'', noise = 8\<rparr>"

definition red_cube :: GenerateRequest where
  "red_cube = \<lparr>prompt = Some ''a red cube'', height = 512, width = 512, steps = 4,
               guidance_scale = 0, seed = 42\<rparr>"

text \<open>The CPU machine on which the configuration file cannot be opened for writing.\<close>

definition read_only_env :: env where
  "read_only_env = cpu_env\<lparr>open_w_raises := Some (OSError ''Permission denied'')\<rparr>"

text \<open>Tool arguments: the red cube, and a call that gives a height of 100 only.\<close>

definition red_cube_args :: arguments where
  "red_cube_args =
     \<lparr>arg_prompt = Some ''a red cube'', arg_height = Some 512, arg_width = Some 512,
      arg_steps = Some 4, arg_guidance_scale = Some 0, arg_seed = Some 42\<rparr>"

definition height_100_args :: arguments where
  "height_100_args =
     \<lparr>arg_prompt = None, arg_height = Some 100, arg_width = None, arg_steps = None,
      arg_guidance_scale = None, arg_seed = None\<rparr>"

text \<open>A settings update that gives the cache directory only, and one that gives every field.\<close>

definition cache_dir_only :: settings_payload where
  "cache_dir_only =
     \<lparr>body_cache_dir = ''/models'', body_cpu_offload = None, body_gpu_device = None,
      body_fp8_quantization = None\<rparr>"

definition full_payload :: settings_payload where
  "full_payload =
     \<lparr>body_cache_dir = ''/models'', body_cpu_offload = Some True, body_gpu_device = Some 1,
      body_fp8_quantization = Some True\<rparr>"

section \<open>Basic facts\<close>

lemma print_fields [simp]:
  "model_config (print ev s) = model_config s"
  "pipe (print ev s) = pipe s"
  "config_file (print ev s) = config_file s"
  "existing_paths (print ev s) = existing_paths s"
  "saved_images (print ev s) = saved_images s"
  "printed (print ev s) = printed s @ [ev]"
  "acquire_calls (print ev s) = acquire_calls s"
  "construct_calls (print ev s) = construct_calls s"
  "engine_calls (print ev s) = engine_calls s"
  by (simp_all add: print_def)

lemmas run_defs =
  get_pipeline_def construct_def resolve_device_def load_model_def from_pretrained_def
  quantize_freeze_def present_def place_pipeline_def generate_image_core_def
  generator_device_def make_generator_def call_pipeline_def save_output_def makedirs_def
  save_config_def save_config_body_def open_w_def json_dump_def set_model_path_def
  print_def Let_def

lemmas example_defs =
  cpu_env_def gpu_env_def quantize_fails_env_def disk_full_env_def read_only_env_def
  fresh_state_def gpu5_state_def clock1_def clock2_def red_cube_def red_cube_args_def
  height_100_args_def tool_request_def

lemma red_cube_run:
  "fst (generate_image_core cpu_env clock1 (tool_request red_cube_args) fresh_state) = Inr ''AAA''"
  by (simp add: run_defs example_defs fill_missing_def default_config_def)

section \<open>Validation of the dimensions\<close>

text \<open>
  Claim C2. A request whose height or width is not a multiple of 16 is rejected with the
  \<^verbatim>\<open>ValueError\<close> of line 218, which the HTTP handler turns into status 400. The state
  is returned as it was: \<^verbatim>\<open>get_pipeline\<close> has not been called and no image has been
  written.
\<close>

theorem C2_bad_dimensions_rejected_before_acquire:
  assumes "height r mod 16 \<noteq> 0 \<or> width r mod 16 \<noteq> 0"
  shows "generate_image_core env nd r s =
           (Inl (ValueError ''Height and Width must be divisible by 16.''), s)
       \<and> generate_image env nd r s =
           (Inl (HTTPException 400 ''Height and Width must be divisible by 16.''), s)
       \<and> acquire_calls (snd (generate_image env nd r s)) = acquire_calls s
       \<and> saved_images (snd (generate_image env nd r s)) = saved_images s"
proof -
  have core: "generate_image_core env nd r s =
           (Inl (ValueError ''Height and Width must be divisible by 16.''), s)"
    using assms by (simp add: generate_image_core_def)
  then have http: "generate_image env nd r s =
           (Inl (HTTPException 400 ''Height and Width must be divisible by 16.''), s)"
    by (simp add: generate_image_def)
  from core http show ?thesis by simp
qed

theorem C2_witness:
  "generate_image_core cpu_env clock1 (red_cube\<lparr>height := 100\<rparr>) fresh_state =
     (Inl (ValueError ''Height and Width must be divisible by 16.''), fresh_state)
   \<and> generate_image cpu_env clock1 (red_cube\<lparr>height := 100\<rparr>) fresh_state =
     (Inl (HTTPException 400 ''Height and Width must be divisible by 16.''), fresh_state)
   \<and> acquire_calls (snd (generate_image cpu_env clock1 (red_cube\<lparr>height := 100\<rparr>) fresh_state)) = 0
   \<and> saved_images (snd (generate_image cpu_env clock1 (red_cube\<lparr>height := 100\<rparr>) fresh_state)) = []"
  using C2_bad_dimensions_rejected_before_acquire
          [of "red_cube\<lparr>height := 100\<rparr>" cpu_env clock1 fresh_state]
  by (simp add: red_cube_def fresh_state_def)

section \<open>Loading the configuration\<close>




section \<open>Saving the configuration\<close>

text \<open>
  Claim C7, as stated, fails. \<^verbatim>\<open>save_config\<close> opens the file itself for writing,
  which empties it, and then writes into it. While the GPU-5 configuration is being replaced
  the file passes through a content that is neither the old document nor the new one, and
  when the write fails after the open the file is left in that content.
\<close>

theorem C7_counterexample:
  "config_file gpu5_state = Document gpu5_config
   \<and> save_config_file_trace cpu_env legacy_config gpu5_state
       = [Document gpu5_config, Unparsable, Document legacy_config]
   \<and> Unparsable \<noteq> Document gpu5_config \<and> Unparsable \<noteq> Document legacy_config
   \<and> config_file (snd (save_config disk_full_env legacy_config gpu5_state)) = Unparsable"
  by (simp add: save_config_file_trace_def save_config_def save_config_body_def open_w_def
        json_dump_def cpu_env_def disk_full_env_def gpu5_state_def fresh_state_def)

text \<open>
  Claim C7, amended. \<^verbatim>\<open>save_config\<close> never raises. When both the open and the write
  succeed the file holds the new document and nothing else changes; when the open fails
  the error is printed and the file is untouched; when the write fails after the open the
  error is printed and the file is left truncated.
\<close>

theorem C7_save_never_raises:
  "fst (save_config env c s) = Inr ()
   \<and> (open_w_raises env = None \<and> json_dump_raises env = None \<longrightarrow>
        snd (save_config env c s) = s\<lparr>config_file := Document c\<rparr>)
   \<and> (\<forall>e. open_w_raises env = Some e \<longrightarrow>
        snd (save_config env c s) = print (ErrorSavingConfig e) s)
   \<and> (\<forall>e. open_w_raises env = None \<and> json_dump_raises env = Some e \<longrightarrow>
        snd (save_config env c s) = print (ErrorSavingConfig e) (s\<lparr>config_file := Unparsable\<rparr>))"
proof (cases "open_w_raises env")
  case None
  then show ?thesis
    by (cases "json_dump_raises env")
       (simp_all add: save_config_def save_config_body_def open_w_def json_dump_def)
next
  case (Some e)
  then show ?thesis
    by (simp add: save_config_def save_config_body_def open_w_def)
qed

theorem C7_witness:
  "fst (save_config cpu_env legacy_config gpu5_state) = Inr ()
   \<and> config_file (snd (save_config cpu_env legacy_config gpu5_state)) = Document legacy_config
   \<and> fst (save_config read_only_env legacy_config gpu5_state) = Inr ()
   \<and> snd (save_config read_only_env legacy_config gpu5_state)
       = print (ErrorSavingConfig (OSError ''Permission denied'')) gpu5_state
   \<and> fst (save_config disk_full_env legacy_config gpu5_state) = Inr ()
   \<and> printed (snd (save_config disk_full_env legacy_config gpu5_state))
       = [ErrorSavingConfig (OSError ''No space left on device'')]"
  using C7_save_never_raises [of cpu_env legacy_config gpu5_state]
        C7_save_never_raises [of read_only_env legacy_config gpu5_state]
        C7_save_never_raises [of disk_full_env legacy_config gpu5_state]
  by (simp add: cpu_env_def read_only_env_def disk_full_env_def gpu5_state_def fresh_state_def)

section \<open>The tool front-end\<close>

text \<open>
  Claim C9. A call of the tool \<^verbatim>\<open>generate-image\<close> never raises: when
  \<^verbatim>\<open>generate_image_core\<close> raises \<open>e\<close> the result is one text item carrying
  \<^verbatim>\<open>str(e)\<close>, and when it returns a payload the result is one image item carrying
  that payload with MIME type \<^verbatim>\<open>image/png\<close>.
\<close>

theorem C9_tool_errors_become_text:
  "(\<forall>e s1. generate_image_core env nd (tool_request args) s = (Inl e, s1) \<longrightarrow>
       call_tool env nd ''generate-image'' args s
         = (Inr [TextContent (''Error generating image: '' @ str_error e)], s1))
   \<and> (\<forall>b s1. generate_image_core env nd (tool_request args) s = (Inr b, s1) \<longrightarrow>
       call_tool env nd ''generate-image'' args s
         = (Inr [ImageContent b ''image/png'' [''user''] 1], s1))
   \<and> (\<forall>e. fst (call_tool env nd ''generate-image'' args s) \<noteq> Inl e)"
  by (auto simp: call_tool_def split: prod.splits sum.splits)

theorem C9_witness:
  "fst (call_tool cpu_env clock1 ''generate-image'' height_100_args fresh_state)
     = Inr [TextContent ''Error generating image: Height and Width must be divisible by 16.'']
   \<and> fst (call_tool cpu_env clock1 ''generate-image'' red_cube_args fresh_state)
     = Inr [ImageContent ''AAA'' ''image/png'' [''user''] 1]"
proof -
  have bad: "generate_image_core cpu_env clock1 (tool_request height_100_args) fresh_state
      = (Inl (ValueError ''Height and Width must be divisible by 16.''), fresh_state)"
    by (simp add: generate_image_core_def tool_request_def height_100_args_def)
  have good: "generate_image_core cpu_env clock1 (tool_request red_cube_args) fresh_state
      = (Inr ''AAA'', snd (generate_image_core cpu_env clock1 (tool_request red_cube_args) fresh_state))"
    using red_cube_run by (metis prod.collapse)
  from C9_tool_errors_become_text [of cpu_env clock1 height_100_args fresh_state] bad
       C9_tool_errors_become_text [of cpu_env clock1 red_cube_args fresh_state] good
  show ?thesis by simp
qed

section \<open>Settings update and read\<close>

lemma makedirs_fields [simp]:
  "model_config (snd (makedirs env path s)) = model_config s"
  "pipe (snd (makedirs env path s)) = pipe s"
  "config_file (snd (makedirs env path s)) = config_file s"
  "acquire_calls (snd (makedirs env path s)) = acquire_calls s"
  "construct_calls (snd (makedirs env path s)) = construct_calls s"
  "engine_calls (snd (makedirs env path s)) = engine_calls s"
  "saved_images (snd (makedirs env path s)) = saved_images s"
  by (simp_all add: makedirs_def split: option.splits)

lemma save_config_fields [simp]:
  "model_config (snd (save_config env c s)) = model_config s"
  "pipe (snd (save_config env c s)) = pipe s"
  "acquire_calls (snd (save_config env c s)) = acquire_calls s"
  "construct_calls (snd (save_config env c s)) = construct_calls s"
  "engine_calls (snd (save_config env c s)) = engine_calls s"
  "fst (save_config env c s) = Inr ()"
  by (simp_all add: save_config_def save_config_body_def open_w_def json_dump_def
        split: option.splits)

lemma save_config_file:
  "open_w_raises env = None \<Longrightarrow> json_dump_raises env = None \<Longrightarrow>
   config_file (snd (save_config env c s)) = Document c"
  by (simp add: save_config_def save_config_body_def open_w_def json_dump_def)

text \<open>What a successful settings update leaves behind.\<close>

lemma set_model_path_success:
  assumes "set_model_path env req s = (Inr ack, s')"
  shows "model_config s' = (model_config s)
             (''cache_dir'' \<mapsto> JStr (req_cache_dir req),
              ''cpu_offload'' \<mapsto> JBool (req_cpu_offload req),
              ''gpu_device'' \<mapsto> JInt (req_gpu_device req),
              ''fp8_quantization'' \<mapsto> JBool (req_fp8_quantization req))"
    and "pipe s' = None"
    and "acquire_calls s' = acquire_calls s"
    and "construct_calls s' = construct_calls s"
    and "engine_calls s' = engine_calls s"
    and "ack = (''success'', ''Settings saved. Model will reload on next generation.'')"
proof -
  let ?pre = "if req_cache_dir req \<noteq> [] \<and> req_cache_dir req \<notin> existing_paths s
               then makedirs env (req_cache_dir req) s else (Inr (), s)"
  obtain r1 s1 where pre: "?pre = (r1, s1)" by (cases ?pre)
  have s1: "model_config s1 = model_config s" "acquire_calls s1 = acquire_calls s"
    "construct_calls s1 = construct_calls s" "engine_calls s1 = engine_calls s"
  proof -
    have "s1 = snd ?pre" using pre by simp
    then show "model_config s1 = model_config s" "acquire_calls s1 = acquire_calls s"
      "construct_calls s1 = construct_calls s" "engine_calls s1 = engine_calls s"
      by simp_all
  qed
  from assms pre obtain u where r1: "r1 = Inr u"
    by (cases r1) (auto simp: set_model_path_def)
  let ?c = "(model_config s1)
             (''cache_dir'' \<mapsto> JStr (req_cache_dir req),
              ''cpu_offload'' \<mapsto> JBool (req_cpu_offload req),
              ''gpu_device'' \<mapsto> JInt (req_gpu_device req),
              ''fp8_quantization'' \<mapsto> JBool (req_fp8_quantization req))"
  let ?s2 = "s1\<lparr>model_config := ?c\<rparr>"
  obtain r3 s3 where sv: "save_config env ?c ?s2 = (r3, s3)" by (cases "save_config env ?c ?s2")
  have r3: "r3 = Inr ()" using sv save_config_fields(6) [of env ?c ?s2] by simp
  have s3: "s3 = snd (save_config env ?c ?s2)" using sv by simp
  from assms pre r1 sv r3 have res: "s' = s3\<lparr>pipe := None\<rparr>"
    "ack = (''success'', ''Settings saved. Model will reload on next generation.'')"
    by (auto simp: set_model_path_def Let_def)
  show "model_config s' = (model_config s)
             (''cache_dir'' \<mapsto> JStr (req_cache_dir req),
              ''cpu_offload'' \<mapsto> JBool (req_cpu_offload req),
              ''gpu_device'' \<mapsto> JInt (req_gpu_device req),
              ''fp8_quantization'' \<mapsto> JBool (req_fp8_quantization req))"
    using res s3 s1 by simp
  show "pipe s' = None" using res by simp
  show "acquire_calls s' = acquire_calls s" using res s3 s1 by simp
  show "construct_calls s' = construct_calls s" using res s3 s1 by simp
  show "engine_calls s' = engine_calls s" using res s3 s1 by simp
  show "ack = (''success'', ''Settings saved. Model will reload on next generation.'')"
    using res by simp
qed


lemma save_config_not_Inl [simp]: "save_config env c s \<noteq> (Inl e, s')"
  using save_config_fields(6) [of env c s] by (metis fst_conv sum.distinct(1))

lemma set_model_path_succeeds_iff:
  "(\<exists>ack s'. set_model_path env req s = (Inr ack, s'))
     \<longleftrightarrow> (req_cache_dir req = [] \<or> req_cache_dir req \<in> existing_paths s
          \<or> makedirs_raises env (req_cache_dir req) = None)"
  by (auto simp: set_model_path_def makedirs_def Let_def split: option.splits prod.splits sum.splits)

lemma set_model_path_file:
  assumes "set_model_path env req s = (Inr ack, s')"
    and "open_w_raises env = None" and "json_dump_raises env = None"
  shows "config_file s' = Document (model_config s')"
  using assms
  by (auto simp: set_model_path_def makedirs_def Let_def save_config_def save_config_body_def
        open_w_def json_dump_def split: option.splits prod.splits sum.splits if_splits)

text \<open>
  Claim C5, as stated, fails. The only defaults the specification documents are those of
  the default configuration (GPU 1, offload and quantization on). An update that gives the
  cache directory alone is followed by a read that shows GPU 0 with offload and
  quantization off: the defaults of the request model (lines 170-172).
\<close>

theorem C5_counterexample:
  "fst (set_model_path cpu_env (parse_SettingsRequest cache_dir_only) fresh_state)
     = Inr (''success'', ''Settings saved. Model will reload on next generation.'')
   \<and> get_settings (snd (set_model_path cpu_env (parse_SettingsRequest cache_dir_only) fresh_state))
        ''gpu_device'' = Some (JInt 0)
   \<and> default_config ''gpu_device'' = Some (JInt 1)
   \<and> get_settings (snd (set_model_path cpu_env (parse_SettingsRequest cache_dir_only) fresh_state))
        ''cpu_offload'' = Some (JBool False)
   \<and> default_config ''cpu_offload'' = Some (JBool True)
   \<and> get_settings (snd (set_model_path cpu_env (parse_SettingsRequest cache_dir_only) fresh_state))
        ''fp8_quantization'' = Some (JBool False)
   \<and> default_config ''fp8_quantization'' = Some (JBool True)"
  by (simp add: set_model_path_def makedirs_def save_config_def save_config_body_def open_w_def
        json_dump_def Let_def get_settings_def parse_SettingsRequest_def cache_dir_only_def
        cpu_env_def fresh_state_def default_config_def)

text \<open>
  Claim C5, amended. After a settings update that succeeds, a read returns the submitted
  cache directory and, for each of \<^verbatim>\<open>cpu_offload\<close>, \<^verbatim>\<open>gpu_device\<close> and
  \<^verbatim>\<open>fp8_quantization\<close>, the submitted value or, when the payload leaves it out,
  \<^verbatim>\<open>False\<close>, \<^verbatim>\<open>0\<close> and \<^verbatim>\<open>False\<close>. Every other key reads as before. The
  update succeeds exactly when the cache directory is empty, exists, or can be created.
\<close>

theorem C5_update_then_read:
  "(\<forall>ack s'. set_model_path env (parse_SettingsRequest b) s = (Inr ack, s') \<longrightarrow>
       get_settings s' ''cache_dir'' = Some (JStr (body_cache_dir b))
     \<and> get_settings s' ''cpu_offload''
         = Some (JBool (case body_cpu_offload b of None \<Rightarrow> False | Some v \<Rightarrow> v))
     \<and> get_settings s' ''gpu_device''
         = Some (JInt (case body_gpu_device b of None \<Rightarrow> 0 | Some v \<Rightarrow> v))
     \<and> get_settings s' ''fp8_quantization''
         = Some (JBool (case body_fp8_quantization b of None \<Rightarrow> False | Some v \<Rightarrow> v))
     \<and> (\<forall>k. k \<noteq> ''cache_dir'' \<and> k \<noteq> ''cpu_offload'' \<and> k \<noteq> ''gpu_device''
              \<and> k \<noteq> ''fp8_quantization'' \<longrightarrow> get_settings s' k = get_settings s k))
   \<and> ((\<exists>ack s'. set_model_path env (parse_SettingsRequest b) s = (Inr ack, s'))
        \<longleftrightarrow> (body_cache_dir b = [] \<or> body_cache_dir b \<in> existing_paths s
             \<or> makedirs_raises env (body_cache_dir b) = None))"
proof -
  have read: "get_settings s' ''cache_dir'' = Some (JStr (body_cache_dir b))
     \<and> get_settings s' ''cpu_offload''
         = Some (JBool (case body_cpu_offload b of None \<Rightarrow> False | Some v \<Rightarrow> v))
     \<and> get_settings s' ''gpu_device''
         = Some (JInt (case body_gpu_device b of None \<Rightarrow> 0 | Some v \<Rightarrow> v))
     \<and> get_settings s' ''fp8_quantization''
         = Some (JBool (case body_fp8_quantization b of None \<Rightarrow> False | Some v \<Rightarrow> v))
     \<and> (\<forall>k. k \<noteq> ''cache_dir'' \<and> k \<noteq> ''cpu_offload'' \<and> k \<noteq> ''gpu_device''
              \<and> k \<noteq> ''fp8_quantization'' \<longrightarrow> get_settings s' k = get_settings s k)"
    if ok: "set_model_path env (parse_SettingsRequest b) s = (Inr ack, s')" for ack s'
    using set_model_path_success(1) [OF ok]
    by (simp add: get_settings_def parse_SettingsRequest_def)
  have succeeds: "(\<exists>ack s'. set_model_path env (parse_SettingsRequest b) s = (Inr ack, s'))
        \<longleftrightarrow> (body_cache_dir b = [] \<or> body_cache_dir b \<in> existing_paths s
             \<or> makedirs_raises env (body_cache_dir b) = None)"
    using set_model_path_succeeds_iff [of env "parse_SettingsRequest b" s]
    by (simp add: parse_SettingsRequest_def)
  from read succeeds show ?thesis by blast
qed

theorem C5_witness:
  "get_settings (snd (set_model_path cpu_env (parse_SettingsRequest full_payload) fresh_state))
      ''cache_dir'' = Some (JStr ''/models'')
   \<and> get_settings (snd (set_model_path cpu_env (parse_SettingsRequest full_payload) fresh_state))
      ''cpu_offload'' = Some (JBool True)
   \<and> get_settings (snd (set_model_path cpu_env (parse_SettingsRequest full_payload) fresh_state))
      ''gpu_device'' = Some (JInt 1)
   \<and> get_settings (snd (set_model_path cpu_env (parse_SettingsRequest full_payload) fresh_state))
      ''fp8_quantization'' = Some (JBool True)
   \<and> get_settings (snd (set_model_path cpu_env (parse_SettingsRequest cache_dir_only) fresh_state))
      ''gpu_device'' = Some (JInt 0)
   \<and> get_settings (snd (set_model_path cpu_env (parse_SettingsRequest cache_dir_only) fresh_state))
      ''model_id'' = Some (JStr ''Tongyi-MAI/Z-Image-Turbo'')"
proof -
  have m: "makedirs_raises cpu_env ''/models'' = None" by (simp add: cpu_env_def)
  have dflt: "get_settings fresh_state ''model_id'' = Some (JStr ''Tongyi-MAI/Z-Image-Turbo'')"
    by (simp add: get_settings_def fresh_state_def fill_missing_def default_config_def)
  from C5_update_then_read [of cpu_env full_payload fresh_state] m
  obtain a1 t1 where r1: "set_model_path cpu_env (parse_SettingsRequest full_payload) fresh_state = (Inr a1, t1)"
    by (auto simp: full_payload_def)
  from C5_update_then_read [of cpu_env cache_dir_only fresh_state] m
  obtain a2 t2 where r2: "set_model_path cpu_env (parse_SettingsRequest cache_dir_only) fresh_state = (Inr a2, t2)"
    by (auto simp: cache_dir_only_def)
  from C5_update_then_read [of cpu_env full_payload fresh_state] r1
       C5_update_then_read [of cpu_env cache_dir_only fresh_state] r2 dflt
  show ?thesis by (simp add: full_payload_def cache_dir_only_def)
qed

end
